theory Spec2Isabelle
  imports Complex_Main
begin

section \<open>Data model of the Tapo measurement tool\<close>

text \<open>
  The development follows \<^verbatim>\<open>src/tapo_measure_tool.py\<close>. Everything the program
  receives from outside (the device, the two clocks, the cancellation of its task, the
  disk) is an explicit input: a finite trace of what the environment answers at each
  interaction point. Clock values are exact reals (seconds), power readings are
  integers (milliwatts).
\<close>

datatype py_error =
    ValueError | FileNotFoundError | FileExistsError | TimeoutError | DeviceError
  | UnboundLocalError | ZeroDivisionError | OSError | CancelledError

text \<open>The dictionary \<^verbatim>\<open>tapo_config\<close> (the content of \<^verbatim>\<open>config.json\<close>).\<close>

record config =
  username :: string
  password :: string
  ip_addresses :: "string list"
  selected_ip :: string
  measure_interval :: real
  measure_duration :: int
  results_folder :: string

text \<open>One element of the list \<^verbatim>\<open>measurements\<close>: \<^verbatim>\<open>{"timestamp": ..., "power": ...}\<close>.\<close>

record sample =
  timestamp :: real
  power_val :: int

datatype csv_line = HeaderLine "string list" | DataLine real int

text \<open>
  What a file holds: the lines of a CSV file, the settings written by \<^verbatim>\<open>json.dump\<close>, or
  what is left of the settings when that write broke off.
\<close>

datatype file_content = Csv "csv_line list" | ConfigJson config | TruncatedJson

text \<open>
  Calls made on the device client (\<^verbatim>\<open>client.p110\<close>, \<^verbatim>\<open>device.get_energy_usage\<close>,
  \<^verbatim>\<open>device.get_device_info_json\<close>).
\<close>

datatype port_call = P110 string string string | GetEnergyUsage | GetDeviceInfoJson

datatype widget_state = Normal | Disabled

datatype dialog = ShowError string string | ShowInfo string string

text \<open>
  The widgets the coroutine writes directly, in the order it writes them:
  \<^verbatim>\<open>progress_bar["value"]\<close> and the text of \<^verbatim>\<open>remaining_time_label\<close>.
\<close>

datatype gui_event = ProgressBar real | RemainingLabel int

text \<open>
  The calls the code hands to the Tk loop with \<^verbatim>\<open>root.after(0, ...)\<close>:
  \<^verbatim>\<open>set_all_widgets_state\<close> with its state, \<^verbatim>\<open>terminal_output.insert\<close> with the timestamp and
  the power of the line, and \<^verbatim>\<open>terminal_output.yview\<close>. They are only scheduled; the Tk
  loop runs them later.
\<close>

datatype tk_call = SetAllWidgetsState widget_state | TerminalInsert real int | TerminalYview

text \<open>The arguments of one \<^verbatim>\<open>measure_power\<close> task created on the event loop.\<close>

record task =
  task_ip :: string
  task_interval :: real
  task_duration :: int
  task_csv :: string

text \<open>
  Everything outside the coroutine that the program reads or writes: the file system,
  the device port, the widgets, the calls waiting in the Tk loop, the module-level
  globals \<^verbatim>\<open>tapo_config\<close> and \<^verbatim>\<open>measurement_task\<close>, and the tasks created on
  \<^verbatim>\<open>main_loop\<close>. \<open>measure_button\<close> is the state of the start button, \<open>widgets_state\<close>
  the state of the other buttons, the entries and the combobox.
\<close>

record world =
  files :: "string \<rightharpoonup> file_content"
  dirs :: "string set"
  port :: "port_call list"
  dialogs :: "dialog list"
  measure_button :: widget_state
  widgets_state :: widget_state
  tk_queue :: "tk_call list"
  status_label :: string
  gui_log :: "gui_event list"
  terminal_output :: "(real \<times> int) list"
  tapo_config :: config
  tasks :: "task list"
  measurement_task :: "nat option"

subsection \<open>The environment of one session\<close>

datatype connect_result = ConnOk | ConnTimeout | ConnError | ConnCancelled

text \<open>
  The result of \<^verbatim>\<open>await asyncio.wait_for(device.get_energy_usage(), timeout=5)\<close>: a
  reading, an exception of the client, the timeout, or the \<^verbatim>\<open>CancelledError\<close> that
  \<^verbatim>\<open>task.cancel()\<close> throws into the coroutine at this await.
\<close>

datatype read_result = ReadOk int | ReadError | ReadTimeout | ReadCancelled

text \<open>
  The result of \<^verbatim>\<open>await asyncio.sleep(measure_interval)\<close>: the wait runs to its end, or
  \<^verbatim>\<open>CancelledError\<close> is thrown into it.
\<close>

datatype sleep_result = SleepDone | SleepCancelled

text \<open>
  What the disk does when the output file is written: \<open>WriteFailsAfter n\<close> lets \<open>n\<close>
  lines through and fails on the next one.
\<close>

datatype disk_result = DiskOk | OpenFails | WriteFailsAfter nat

text \<open>
  The answers of the environment during one pass of the loop, in program order:
  the monotonic clock read by the \<^verbatim>\<open>while\<close> test, the device read, the two readings of
  \<^verbatim>\<open>datetime.now()\<close> (lines 151 and 155), the monotonic clock at the moment the
  pacing wait is entered, and the result of that wait.
\<close>

record tick =
  loop_time :: real
  read_res :: read_result
  stamp :: real
  wall_now :: real
  sleep_at :: real
  sleep_res :: sleep_result

record env =
  connect_res :: connect_result
  clock0 :: real
  wall0 :: real
  ticks :: "tick list"
  disk :: disk_result

section \<open>The measurement loop\<close>

text \<open>The local variables of \<^verbatim>\<open>measure_power\<close>; \<open>current_power = None\<close> is the unbound local.
  \<open>wakeups\<close> records, for each pacing wait issued, the instant at which the event loop
  schedules its end.\<close>

record loop_state =
  measurements :: "sample list"
  current_power :: "int option"
  measure_interrupt :: bool
  wakeups :: "real list"

text \<open>Python's \<^verbatim>\<open>int(x)\<close> on a float truncates toward zero.\<close>

definition py_int :: "real \<Rightarrow> int" where
  "py_int x = (if 0 \<le> x then \<lfloor>x\<rfloor> else \<lceil>x\<rceil>)"

text \<open>Lines 155 to 158: the two values shown to the user.\<close>

definition progress_percent :: "real \<Rightarrow> int \<Rightarrow> real" where
  "progress_percent elapsed_time duration = elapsed_time / real_of_int duration * 100"

definition remaining_time :: "int \<Rightarrow> real \<Rightarrow> int" where
  "remaining_time duration elapsed_time = py_int (real_of_int duration - elapsed_time)"

text \<open>
  \<^verbatim>\<open>asyncio.sleep(delay)\<close> entered at loop time \<open>t\<close> ends at \<open>t + delay\<close>; with a delay
  that is not positive it only yields once.
\<close>

definition sleep_deadline :: "real \<Rightarrow> real \<Rightarrow> real" where
  "sleep_deadline t delay = (if delay \<le> 0 then t else t + delay)"

datatype step = Continue loop_state world | Break loop_state world | Raise py_error loop_state world

text \<open>
  One pass through the body of the \<^verbatim>\<open>while\<close> loop (lines 146 to 171). The bare
  \<^verbatim>\<open>except:\<close> around the read catches every exception, \<^verbatim>\<open>CancelledError\<close> included, and
  leaves \<^verbatim>\<open>current_power\<close> as it was; reading it while unbound raises.
\<close>

definition loop_body :: "real \<Rightarrow> int \<Rightarrow> real \<Rightarrow> tick \<Rightarrow> loop_state \<Rightarrow> world \<Rightarrow> step" where
  "loop_body interval duration start_time e st w =
     (let w1 = w\<lparr>port := port w @ [GetEnergyUsage]\<rparr>;
          cp = (case read_res e of ReadOk p \<Rightarrow> Some p | _ \<Rightarrow> current_power st)
      in case cp of
           None \<Rightarrow> Raise UnboundLocalError st w1
         | Some p \<Rightarrow>
             (let st1 = st\<lparr>current_power := Some p,
                          measurements := measurements st @ [\<lparr>timestamp = stamp e, power_val = p\<rparr>]\<rparr>;
                  elapsed_time = wall_now e - start_time
              in if duration = 0 then Raise ZeroDivisionError st1 w1
                 else
                   (let w2 = w1\<lparr>gui_log := gui_log w1 @
                                 [ProgressBar (progress_percent elapsed_time duration),
                                  RemainingLabel (remaining_time duration elapsed_time)],
                               tk_queue := tk_queue w1 @ [TerminalInsert (stamp e) p, TerminalYview]\<rparr>;
                        st2 = st1\<lparr>wakeups := wakeups st1 @ [sleep_deadline (sleep_at e) interval]\<rparr>
                    in case sleep_res e of
                         SleepDone \<Rightarrow> Continue st2 w2
                       | SleepCancelled \<Rightarrow> Break (st2\<lparr>measure_interrupt := True\<rparr>) w2)))"

text \<open>
  The loop over the trace. \<open>Pending\<close>: the trace ended while the loop was still running;
  \<open>Done\<close>: the loop was left (test false, or \<^verbatim>\<open>break\<close>); \<open>Crashed\<close>: an exception left it.
\<close>

datatype loop_result = Pending loop_state world | Done loop_state world | Crashed py_error loop_state world

primrec step_state :: "step \<Rightarrow> loop_state" where
  "step_state (Continue st w) = st"
| "step_state (Break st w) = st"
| "step_state (Raise err st w) = st"

primrec step_world :: "step \<Rightarrow> world" where
  "step_world (Continue st w) = w"
| "step_world (Break st w) = w"
| "step_world (Raise err st w) = w"

primrec state_of :: "loop_result \<Rightarrow> loop_state" where
  "state_of (Pending st w) = st"
| "state_of (Done st w) = st"
| "state_of (Crashed err st w) = st"

primrec world_of :: "loop_result \<Rightarrow> world" where
  "world_of (Pending st w) = w"
| "world_of (Done st w) = w"
| "world_of (Crashed err st w) = w"

fun measure_loop :: "real \<Rightarrow> int \<Rightarrow> real \<Rightarrow> real \<Rightarrow> tick list \<Rightarrow> loop_state \<Rightarrow> world \<Rightarrow> loop_result" where
  "measure_loop interval duration end_time start_time [] st w = Pending st w"
| "measure_loop interval duration end_time start_time (e # es) st w =
     (if loop_time e < end_time then
        (case loop_body interval duration start_time e st w of
           Continue st' w' \<Rightarrow> measure_loop interval duration end_time start_time es st' w'
         | Break st' w' \<Rightarrow> Done st' w'
         | Raise err st' w' \<Rightarrow> Crashed err st' w')
      else Done st w)"

section \<open>Persistence and the whole coroutine\<close>

definition csv_lines :: "sample list \<Rightarrow> csv_line list" where
  "csv_lines ms = HeaderLine [''timestamp'', ''power''] # map (\<lambda>s. DataLine (timestamp s) (power_val s)) ms"

text \<open>
  Lines 175 to 178: \<^verbatim>\<open>open(csv_name, "w")\<close> creates or truncates the file at the final
  path, then the header and the rows are written to it in order. An error while writing
  leaves the \<^verbatim>\<open>with\<close> block, which closes the file with what it holds.
\<close>

definition write_csv :: "disk_result \<Rightarrow> string \<Rightarrow> sample list \<Rightarrow> world \<Rightarrow> py_error option \<times> world" where
  "write_csv d csv_name ms w =
     (case d of
        OpenFails \<Rightarrow> (Some OSError, w)
      | DiskOk \<Rightarrow> (None, w\<lparr>files := (files w)(csv_name \<mapsto> Csv (csv_lines ms))\<rparr>)
      | WriteFailsAfter n \<Rightarrow>
          (if n < length (csv_lines ms)
           then (Some OSError, w\<lparr>files := (files w)(csv_name \<mapsto> Csv (take n (csv_lines ms)))\<rparr>)
           else (None, w\<lparr>files := (files w)(csv_name \<mapsto> Csv (csv_lines ms))\<rparr>)))"

datatype outcome = Returned | Raised py_error

record result =
  outcome :: outcome
  final :: loop_state
  after :: world

definition init_state :: loop_state where
  "init_state = \<lparr>measurements = [], current_power = None, measure_interrupt = False, wakeups = []\<rparr>"

text \<open>Lines 173 to 180: what follows the loop.\<close>

definition finish :: "disk_result \<Rightarrow> string \<Rightarrow> loop_state \<Rightarrow> world \<Rightarrow> result" where
  "finish d csv_name st w =
     (if measure_interrupt st then \<lparr>outcome = Returned, final = st, after = w\<rparr>
      else
        (let w1 = w\<lparr>gui_log := gui_log w @ [ProgressBar 100]\<rparr>
         in case write_csv d csv_name (measurements st) w1 of
              (Some err, w2) \<Rightarrow> \<lparr>outcome = Raised err, final = st, after = w2\<rparr>
            | (None, w2) \<Rightarrow>
                \<lparr>outcome = Returned, final = st,
                 after = w2\<lparr>dialogs := dialogs w2 @ [ShowInfo ''Success'' (''Data saved to '' @ csv_name)],
                            tk_queue := tk_queue w2 @ [SetAllWidgetsState Normal]\<rparr>\<rparr>))"

text \<open>Lines 139 and 140: the client is made from the stored credentials and asked for the plug.\<close>

definition connecting :: "string \<Rightarrow> world \<Rightarrow> world" where
  "connecting tapo_ip w =
     w\<lparr>port := port w @ [P110 tapo_ip (username (tapo_config w)) (password (tapo_config w))]\<rparr>"

text \<open>
  Lines 141 to 171 after a successful connection: \<^verbatim>\<open>end_time\<close> is the monotonic clock
  plus the duration, \<^verbatim>\<open>start_time\<close> the wall clock, and the loop starts from the empty
  list of measurements.
\<close>

definition run_loop :: "env \<Rightarrow> string \<Rightarrow> real \<Rightarrow> int \<Rightarrow> world \<Rightarrow> loop_result" where
  "run_loop ev tapo_ip interval duration w =
     measure_loop interval duration (clock0 ev + real_of_int duration) (wall0 ev)
       (ticks ev) init_state (connecting tapo_ip w)"

text \<open>
  \<^verbatim>\<open>measure_power\<close> (lines 138 to 180). The result is \<open>None\<close> when the trace ends before
  the coroutine does.
\<close>

definition measure_power :: "env \<Rightarrow> string \<Rightarrow> real \<Rightarrow> int \<Rightarrow> string \<Rightarrow> world \<Rightarrow> result option" where
  "measure_power ev tapo_ip interval duration csv_name w =
     (case connect_res ev of
        ConnTimeout \<Rightarrow>
          Some \<lparr>outcome = Raised TimeoutError, final = init_state, after = connecting tapo_ip w\<rparr>
      | ConnError \<Rightarrow>
          Some \<lparr>outcome = Raised DeviceError, final = init_state, after = connecting tapo_ip w\<rparr>
      | ConnCancelled \<Rightarrow>
          Some \<lparr>outcome = Raised CancelledError, final = init_state, after = connecting tapo_ip w\<rparr>
      | ConnOk \<Rightarrow>
          (case run_loop ev tapo_ip interval duration w of
             Pending st w1 \<Rightarrow> None
           | Crashed err st w1 \<Rightarrow> Some \<lparr>outcome = Raised err, final = st, after = w1\<rparr>
           | Done st w1 \<Rightarrow> Some (finish (disk ev) csv_name st w1)))"

text \<open>
  The terminal states of a session, read off the way the coroutine ends: it returns
  after persisting (\<open>Completed\<close>), it returns with \<^verbatim>\<open>measure_interrupt\<close> set or its task
  ends with \<^verbatim>\<open>CancelledError\<close>, which \<^verbatim>\<open>measure_power_async\<close> reports as
  "Measurement cancelled." (\<open>Cancelled\<close>), or another exception leaves it (\<open>Failed\<close>).
\<close>

datatype session_state = Completed | Cancelled | Failed

definition terminal_state :: "result \<Rightarrow> session_state" where
  "terminal_state r =
     (case outcome r of
        Returned \<Rightarrow> (if measure_interrupt (final r) then Cancelled else Completed)
      | Raised err \<Rightarrow> (if err = CancelledError then Cancelled else Failed))"

section \<open>Starting a session\<close>

text \<open>
  The Tk variables read by \<^verbatim>\<open>measure_power_async\<close>. \<open>interval_var\<close> and \<open>duration_var\<close>
  hold what \<^verbatim>\<open>float(...)\<close> and \<^verbatim>\<open>int(...)\<close> make of the text of the entry, \<open>None\<close> when
  the conversion raises \<^verbatim>\<open>ValueError\<close>.
\<close>

record form =
  username_var :: string
  password_var :: string
  filename_var :: string
  folder_var :: string
  ip_var :: string
  interval_var :: "real option"
  duration_var :: "int option"

text \<open>\<^verbatim>\<open>os.path.join\<close> of two components (POSIX).\<close>

definition path_join :: "string \<Rightarrow> string \<Rightarrow> string" where
  "path_join a b =
     (if take 1 b = ''/'' then b
      else if a = [] \<or> last a = CHR ''/'' then a @ b
      else a @ ''/'' @ b)"

text \<open>The decimal text of a counter, as the f-string prints it.\<close>

fun decimal :: "nat \<Rightarrow> string" where
  "decimal n =
     (if n < 10 then [''0123456789'' ! n]
      else decimal (n div 10) @ [''0123456789'' ! (n mod 10)])"

declare decimal.simps [simp del]

text \<open>
  The \<^verbatim>\<open>while os.path.exists(csv_path)\<close> loop of \<^verbatim>\<open>get_unique_filename\<close>, with its
  variables \<^verbatim>\<open>counter\<close> and \<^verbatim>\<open>csv_path\<close>. It does not return while every candidate
  exists.
\<close>

partial_function (option) probe_filename ::
    "(string \<Rightarrow> bool) \<Rightarrow> string \<Rightarrow> string \<Rightarrow> nat \<Rightarrow> string \<Rightarrow> string option" where
  "probe_filename exists folder base_filename counter csv_path =
     (if exists csv_path
      then probe_filename exists folder base_filename (counter + 1)
             (path_join folder (base_filename @ ''_'' @ decimal counter @ ''.csv''))
      else Some csv_path)"

definition get_unique_filename :: "(string \<Rightarrow> bool) \<Rightarrow> string \<Rightarrow> string \<Rightarrow> string option" where
  "get_unique_filename exists folder filename =
     probe_filename exists folder filename 1 (path_join folder (filename @ ''.csv''))"

definition path_exists :: "world \<Rightarrow> string \<Rightarrow> bool" where
  "path_exists w p = (case files w p of Some c \<Rightarrow> True | None \<Rightarrow> p \<in> dirs w)"

text \<open>
  What the disk does when \<^verbatim>\<open>save_config\<close> writes \<^verbatim>\<open>config.json\<close>: the file is written,
  \<^verbatim>\<open>open\<close> fails and nothing changes, or the write breaks off and leaves a truncated
  file. Both failures raise \<^verbatim>\<open>OSError\<close>.
\<close>

datatype config_disk = ConfigSaved | ConfigOpenFails | ConfigWriteFails

definition save_config :: "config_disk \<Rightarrow> config \<Rightarrow> world \<Rightarrow> py_error option \<times> world" where
  "save_config cd c w =
     (case cd of
        ConfigSaved \<Rightarrow> (None, w\<lparr>files := (files w)(''config.json'' \<mapsto> ConfigJson c)\<rparr>)
      | ConfigOpenFails \<Rightarrow> (Some OSError, w)
      | ConfigWriteFails \<Rightarrow> (Some OSError, w\<lparr>files := (files w)(''config.json'' \<mapsto> TruncatedJson)\<rparr>))"

text \<open>\<^verbatim>\<open>os.makedirs(folder, exist_ok=True)\<close>.\<close>

definition makedirs :: "string \<Rightarrow> world \<Rightarrow> py_error + world" where
  "makedirs folder w =
     (if folder = [] then Inl FileNotFoundError
      else case files w folder of
             Some c \<Rightarrow> Inl FileExistsError
           | None \<Rightarrow> Inr (w\<lparr>dirs := insert folder (dirs w)\<rparr>))"

datatype setup_result = TaskCreated nat | Rejected | SetupRaised py_error

text \<open>
  \<^verbatim>\<open>measure_power_async\<close> up to its first suspension point (lines 107 to 131): there is
  no \<^verbatim>\<open>await\<close> before the task is created, so this part runs in one piece. The call that
  disables the widgets is only scheduled (line 108), and so is the one that enables them
  again after a rejection (line 122). \<^verbatim>\<open>save_config\<close> (line 115) runs before the check of
  the address and the filename (line 120); an \<^verbatim>\<open>OSError\<close> of it leaves the coroutine. The
  new task is appended to the tasks of the event loop and the global
  \<^verbatim>\<open>measurement_task\<close> is rebound to it.
\<close>

definition measure_power_async_setup ::
    "config_disk \<Rightarrow> form \<Rightarrow> world \<Rightarrow> (setup_result \<times> world) option" where
  "measure_power_async_setup cd f w =
     (let w1 = w\<lparr>tk_queue := tk_queue w @ [SetAllWidgetsState Disabled]\<rparr>;
          c1 = (tapo_config w)\<lparr>username := username_var f, password := password_var f,
                                 results_folder := folder_var f\<rparr>
      in case interval_var f of
           None \<Rightarrow> Some (SetupRaised ValueError, w1\<lparr>tapo_config := c1\<rparr>)
         | Some i \<Rightarrow>
             (case duration_var f of
                None \<Rightarrow> Some (SetupRaised ValueError, w1\<lparr>tapo_config := c1\<lparr>measure_interval := i\<rparr>\<rparr>)
              | Some d \<Rightarrow>
                  (let c2 = c1\<lparr>measure_interval := i, measure_duration := d\<rparr>
                   in case save_config cd c2 (w1\<lparr>tapo_config := c2\<rparr>) of
                        (Some err, w2) \<Rightarrow> Some (SetupRaised err, w2)
                      | (None, w2) \<Rightarrow>
                          (if ip_var f = [] \<or> filename_var f = []
                           then Some (Rejected,
                                      w2\<lparr>dialogs := dialogs w2 @
                                            [ShowError ''Error'' ''IP address and filename are required.''],
                                          tk_queue := tk_queue w2 @ [SetAllWidgetsState Normal]\<rparr>)
                           else
                             (case makedirs (folder_var f) w2 of
                                Inl err \<Rightarrow> Some (SetupRaised err, w2)
                              | Inr w3 \<Rightarrow>
                                  (case get_unique_filename (path_exists w3) (folder_var f)
                                          (filename_var f) of
                                     None \<Rightarrow> None
                                   | Some csv_path \<Rightarrow>
                                       Some (TaskCreated (length (tasks w3)),
                                             w3\<lparr>tasks := tasks w3 @
                                                   [\<lparr>task_ip = ip_var f, task_interval = i,
                                                     task_duration = d, task_csv = csv_path\<rparr>],
                                                 measurement_task := Some (length (tasks w3))\<rparr>)))))))"

text \<open>
  \<^verbatim>\<open>start_measurement_threadsafe\<close> hands the coroutine to the event loop, which runs it
  to its first suspension point.
\<close>

definition start_measurement_threadsafe ::
    "config_disk \<Rightarrow> form \<Rightarrow> world \<Rightarrow> (setup_result \<times> world) option" where
  "start_measurement_threadsafe cd f w = measure_power_async_setup cd f w"

subsection \<open>The widgets and the Tk loop\<close>

text \<open>
  \<^verbatim>\<open>set_all_widgets_state\<close> walks the widget tree and sets every button, entry and
  combobox, the start button among them. The Tk loop runs the calls that were scheduled
  with \<^verbatim>\<open>root.after\<close> in their order when it next gets to them.
\<close>

primrec tk_run_call :: "tk_call \<Rightarrow> world \<Rightarrow> world" where
  "tk_run_call (SetAllWidgetsState s) w = w\<lparr>measure_button := s, widgets_state := s\<rparr>"
| "tk_run_call (TerminalInsert t p) w = w\<lparr>terminal_output := terminal_output w @ [(t, p)]\<rparr>"
| "tk_run_call TerminalYview w = w"

definition tk_update :: "world \<Rightarrow> world" where
  "tk_update w = (fold tk_run_call (tk_queue w) w)\<lparr>tk_queue := []\<rparr>"

text \<open>
  The button \<^verbatim>\<open>measure_button\<close> has \<^verbatim>\<open>start_measurement_threadsafe\<close> as its command; a
  disabled button does not run its command. The button is created disabled (line 249).
\<close>

definition press_measure_button :: "config_disk \<Rightarrow> form \<Rightarrow> world \<Rightarrow> world option" where
  "press_measure_button cd f w =
     (if measure_button w = Normal then map_option snd (start_measurement_threadsafe cd f w)
      else Some w)"

text \<open>
  \<^verbatim>\<open>ping_ip_async\<close> (lines 87 to 101), a coroutine on the same event loop: when both
  calls on the device answer, it sets the start button to normal, whatever else is
  running. The message of a device error is what the exception carries.
\<close>

datatype ping_result =
    PingOk | PingConnectTimeout | PingConnectError string | PingInfoTimeout | PingInfoError string

definition ping_ip_async :: "ping_result \<Rightarrow> form \<Rightarrow> world \<Rightarrow> world" where
  "ping_ip_async pr f w =
     (if ip_var f = [] then w\<lparr>dialogs := dialogs w @ [ShowError ''Error'' ''No IP address selected.'']\<rparr>
      else
        (let w1 = w\<lparr>port := port w @ [P110 (ip_var f) (username_var f) (password_var f)]\<rparr>;
             w2 = w1\<lparr>port := port w1 @ [GetDeviceInfoJson]\<rparr>;
             timeout = ''Timeout: '' @ ip_var f @ '' is unreachable''
         in case pr of
              PingOk \<Rightarrow> w2\<lparr>status_label := ''Connected to '' @ ip_var f, measure_button := Normal\<rparr>
            | PingConnectTimeout \<Rightarrow> w1\<lparr>status_label := timeout\<rparr>
            | PingConnectError msg \<Rightarrow> w1\<lparr>status_label := ''Error: '' @ msg\<rparr>
            | PingInfoTimeout \<Rightarrow> w2\<lparr>status_label := timeout\<rparr>
            | PingInfoError msg \<Rightarrow> w2\<lparr>status_label := ''Error: '' @ msg\<rparr>))"

text \<open>
  The whole of \<^verbatim>\<open>measure_power_async\<close> for one session: the set-up, the task, and the
  handler of \<^verbatim>\<open>CancelledError\<close> around \<^verbatim>\<open>await measurement_task\<close>.
\<close>

datatype session = NotStarted setup_result world | Ran result

definition measure_power_async :: "config_disk \<Rightarrow> form \<Rightarrow> env \<Rightarrow> world \<Rightarrow> session option" where
  "measure_power_async cd f ev w =
     (case measure_power_async_setup cd f w of
        None \<Rightarrow> None
      | Some (TaskCreated i, w1) \<Rightarrow>
          (case measure_power ev (task_ip (tasks w1 ! i)) (task_interval (tasks w1 ! i))
                  (task_duration (tasks w1 ! i)) (task_csv (tasks w1 ! i)) w1 of
             None \<Rightarrow> None
           | Some r \<Rightarrow>
               Some (Ran (if outcome r = Raised CancelledError
                          then r\<lparr>after := (after r)\<lparr>status_label := ''Measurement cancelled.''\<rparr>\<rparr>
                          else r)))
      | Some (res, w1) \<Rightarrow> Some (NotStarted res w1))"

text \<open>Whether a path exists, as a function of the files and the directories alone.\<close>

definition entry_exists :: "(string \<rightharpoonup> file_content) \<Rightarrow> string set \<Rightarrow> string \<Rightarrow> bool" where
  "entry_exists fs ds p = (case fs p of Some c \<Rightarrow> True | None \<Rightarrow> p \<in> ds)"

text \<open>What one pass of the loop writes to the progress bar and the label (lines 155 to 159).\<close>

definition pass_reports :: "int \<Rightarrow> real \<Rightarrow> tick \<Rightarrow> gui_event list" where
  "pass_reports duration start_time e =
     [ProgressBar (progress_percent (wall_now e - start_time) duration),
      RemainingLabel (remaining_time duration (wall_now e - start_time))]"

text \<open>\<open>nextDeadline\<close> as the specification of the session clock words it.\<close>

definition nextDeadline :: "real \<Rightarrow> nat \<Rightarrow> real \<Rightarrow> real" where
  "nextDeadline start tickIndex interval = start + real tickIndex * interval"

section \<open>Concrete sessions\<close>

text \<open>
  A world with an empty file system and the settings of a configured tool, in which an
  earlier ping has enabled the start button, and a way to write down traces: every session below connects, starts at monotonic time 0 and
  wall-clock time 1000, and reads the wall clock once per pass.
\<close>

definition demo_world :: world where
  "demo_world =
     \<lparr>files = Map.empty, dirs = {}, port = [], dialogs = [], measure_button = Normal,
      widgets_state = Normal, tk_queue = [], status_label = [], gui_log = [],
      terminal_output = [],
      tapo_config = \<lparr>username = ''user'', password = ''secret'',
                     ip_addresses = [''192.168.0.10''], selected_ip = ''192.168.0.10'',
                     measure_interval = 1 / 2, measure_duration = 360,
                     results_folder = ''./results''\<rparr>,
      tasks = [], measurement_task = None\<rparr>"

definition mk_tick :: "real \<Rightarrow> read_result \<Rightarrow> real \<Rightarrow> real \<Rightarrow> sleep_result \<Rightarrow> tick" where
  "mk_tick t r n a s =
     \<lparr>loop_time = t, read_res = r, stamp = n, wall_now = n, sleep_at = a, sleep_res = s\<rparr>"

definition mk_env :: "tick list \<Rightarrow> disk_result \<Rightarrow> env" where
  "mk_env ts d = \<lparr>connect_res = ConnOk, clock0 = 0, wall0 = 1000, ticks = ts, disk = d\<rparr>"

text \<open>Two samples, then the task is cancelled during the second pacing wait.\<close>

definition cancel_env :: env where
  "cancel_env =
     mk_env [mk_tick 0 (ReadOk 100) 1000 (1 / 10) SleepDone,
             mk_tick (11 / 10) (ReadOk 120) (10011 / 10) (12 / 10) SleepCancelled] DiskOk"

text \<open>The very first read times out.\<close>

definition first_read_fails_env :: env where
  "first_read_fails_env =
     mk_env [mk_tick 0 ReadTimeout 1005 5 SleepDone,
             mk_tick 6 (ReadOk 120) 1006 6 SleepDone,
             mk_tick 11 (ReadOk 120) 1011 11 SleepDone] DiskOk"

text \<open>The task is cancelled while the second read is in flight; nothing else goes wrong.\<close>

definition cancel_in_read_env :: env where
  "cancel_in_read_env =
     mk_env [mk_tick 0 (ReadOk 100) 1000 (1 / 10) SleepDone,
             mk_tick (11 / 10) ReadCancelled (10012 / 10) (12 / 10) SleepDone,
             mk_tick (22 / 10) (ReadOk 100) (10023 / 10) (23 / 10) SleepDone] DiskOk"

text \<open>Two good reads in a session of two seconds; the third test of the loop ends it.\<close>

definition steady_env :: env where
  "steady_env =
     mk_env [mk_tick 0 (ReadOk 100) 1000 (1 / 10) SleepDone,
             mk_tick (11 / 10) (ReadOk 110) (10011 / 10) (12 / 10) SleepDone,
             mk_tick (22 / 10) (ReadOk 100) 1002 (23 / 10) SleepDone] DiskOk"

text \<open>
  The process is stalled between the computation of \<^verbatim>\<open>end_time\<close> and the first test of
  the loop, which reads the clock at 3/2.
\<close>

definition stalled_env :: env where
  "stalled_env = mk_env [mk_tick (3 / 2) (ReadOk 100) (10015 / 10) (16 / 10) SleepDone] DiskOk"

text \<open>Each read takes half a second; interval 1, duration 3.\<close>

definition drift_env :: env where
  "drift_env =
     mk_env [mk_tick 0 (ReadOk 100) (10005 / 10) (1 / 2) SleepDone,
             mk_tick (3 / 2) (ReadOk 100) 1002 2 SleepDone,
             mk_tick 3 (ReadOk 100) 1003 3 SleepDone] DiskOk"

text \<open>A duration of one second with an interval of two.\<close>

definition short_env :: env where
  "short_env =
     mk_env [mk_tick 0 (ReadOk 100) 1000 (1 / 10) SleepDone,
             mk_tick (21 / 10) (ReadOk 100) (10021 / 10) (22 / 10) SleepDone] DiskOk"

text \<open>A duration of one second; the second read, begun in time, runs into its timeout of 5 s.\<close>

definition late_env :: env where
  "late_env =
     mk_env [mk_tick 0 (ReadOk 100) 1000 (1 / 10) SleepDone,
             mk_tick (6 / 10) ReadTimeout (10056 / 10) (56 / 10) SleepDone,
             mk_tick (61 / 10) (ReadOk 100) (10061 / 10) (61 / 10) SleepDone] DiskOk"

text \<open>
  The ranges the specification gives for a progress report: a percentage in \<open>[0, 100]\<close>
  and remaining whole seconds that are not negative.
\<close>

fun gui_in_range :: "gui_event \<Rightarrow> bool" where
  "gui_in_range (ProgressBar p) = (0 \<le> p \<and> p \<le> 100)"
| "gui_in_range (RemainingLabel n) = (0 \<le> n)"

text \<open>The session of \<open>steady_env\<close> on a disk that fails while the third line is written.\<close>

definition disk_full_env :: env where
  "disk_full_env =
     mk_env [mk_tick 0 (ReadOk 100) 1000 (1 / 10) SleepDone,
             mk_tick (11 / 10) (ReadOk 110) (10011 / 10) (12 / 10) SleepDone,
             mk_tick (22 / 10) (ReadOk 100) 1002 (23 / 10) SleepDone] (WriteFailsAfter 2)"

text \<open>A filled-in form, the same form without an address, and with a duration of zero.\<close>

definition demo_form :: form where
  "demo_form =
     \<lparr>username_var = ''user'', password_var = ''secret'', filename_var = ''run'',
      folder_var = ''./results'', ip_var = ''192.168.0.10'',
      interval_var = Some 1, duration_var = Some 2\<rparr>"

definition no_ip_form :: form where
  "no_ip_form = demo_form\<lparr>ip_var := []\<rparr>"

definition zero_duration_form :: form where
  "zero_duration_form = demo_form\<lparr>duration_var := Some 0\<rparr>"

text \<open>The world in which the session started from \<open>demo_form\<close> is active.\<close>

definition busy_world :: world where
  "busy_world =
     (case start_measurement_threadsafe ConfigSaved demo_form demo_world of
        Some (res, w) \<Rightarrow> w
      | None \<Rightarrow> demo_world)"

text \<open>The result of the task of a session, when a task was created.\<close>

primrec ran :: "session \<Rightarrow> result option" where
  "ran (Ran r) = Some r"
| "ran (NotStarted res w) = None"

section \<open>Properties of the loop\<close>

text \<open>
  An invariant rule for the loop: what holds before it and is kept by every pass of the
  body holds in the state the loop reaches, however the loop ends.
\<close>

lemma measure_loop_invariant:
  assumes init: "P st w"
    and step: "\<And>e st w. e \<in> set es \<Longrightarrow> P st w \<Longrightarrow>
                 P (step_state (loop_body i d s e st w)) (step_world (loop_body i d s e st w))"
  shows "P (state_of (measure_loop i d en s es st w)) (world_of (measure_loop i d en s es st w))"
  using init step
proof (induction es arbitrary: st w)
  case Nil
  then show ?case by simp
next
  case (Cons e es)
  show ?case
  proof (cases "loop_time e < en")
    case False
    with Cons.prems(1) show ?thesis by simp
  next
    case True
    have here: "P (step_state (loop_body i d s e st w)) (step_world (loop_body i d s e st w))"
      using Cons.prems by simp
    show ?thesis
    proof (cases "loop_body i d s e st w")
      case (Continue st' w')
      with here have "P st' w'" by simp
      then have "P (state_of (measure_loop i d en s es st' w'))
                   (world_of (measure_loop i d en s es st' w'))"
        using Cons.IH[of st' w'] Cons.prems(2) by simp
      with True Continue show ?thesis by simp
    next
      case (Break st' w')
      with here True show ?thesis by simp
    next
      case (Raise err st' w')
      with here True show ?thesis by simp
    qed
  qed
qed

text \<open>The body of the loop touches the device port and the widgets that show progress, nothing else.\<close>

lemma loop_body_frame:
  "files (step_world (loop_body i d s e st w)) = files w"
  "dirs (step_world (loop_body i d s e st w)) = dirs w"
  "widgets_state (step_world (loop_body i d s e st w)) = widgets_state w"
  "measure_button (step_world (loop_body i d s e st w)) = measure_button w"
  "tasks (step_world (loop_body i d s e st w)) = tasks w"
  "measurement_task (step_world (loop_body i d s e st w)) = measurement_task w"
  by (simp_all add: loop_body_def Let_def split: option.splits sleep_result.splits)

lemma measure_loop_files: "files (world_of (measure_loop i d en s es st w)) = files w"
  by (rule measure_loop_invariant[where P = "\<lambda>st' w'. files w' = files w"])
     (simp_all add: loop_body_frame)

lemma measure_loop_dirs: "dirs (world_of (measure_loop i d en s es st w)) = dirs w"
  by (rule measure_loop_invariant[where P = "\<lambda>st' w'. dirs w' = dirs w"])
     (simp_all add: loop_body_frame)

lemma measure_loop_widgets:
  "widgets_state (world_of (measure_loop i d en s es st w)) = widgets_state w"
  by (rule measure_loop_invariant[where P = "\<lambda>st' w'. widgets_state w' = widgets_state w"])
     (simp_all add: loop_body_frame)

lemma measure_loop_tasks:
  "tasks (world_of (measure_loop i d en s es st w)) = tasks w \<and>
   measurement_task (world_of (measure_loop i d en s es st w)) = measurement_task w"
  by (rule measure_loop_invariant
        [where P = "\<lambda>st' w'. tasks w' = tasks w \<and> measurement_task w' = measurement_task w"])
     (simp_all add: loop_body_frame)

lemma run_loop_files: "files (world_of (run_loop ev ip i d w)) = files w"
  by (simp add: run_loop_def measure_loop_files connecting_def)

lemma run_loop_dirs: "dirs (world_of (run_loop ev ip i d w)) = dirs w"
  by (simp add: run_loop_def measure_loop_dirs connecting_def)

text \<open>The unfolding that evaluates a concrete session.\<close>

lemmas session_defs =
  measure_power_def run_loop_def connecting_def loop_body_def Let_def init_state_def
  finish_def write_csv_def csv_lines_def mk_env_def mk_tick_def demo_world_def
  terminal_state_def progress_percent_def remaining_time_def py_int_def sleep_deadline_def

section \<open>Cancellation discards the samples\<close>

text \<open>
  Claim C1. The loop observes a cancellation when the handler of \<^verbatim>\<open>CancelledError\<close>
  around the pacing wait runs: it sets \<^verbatim>\<open>measure_interrupt\<close> and breaks. For every
  session whose loop ends that way, \<^verbatim>\<open>measure_power\<close> returns, the session is in the
  terminal state \<open>Cancelled\<close>, and the file system is what it was before the session: no
  file is created or modified, at the target path or anywhere else.
\<close>

theorem cancel_observed_discards:
  assumes conn: "connect_res ev = ConnOk"
    and loop: "run_loop ev tapo_ip interval duration w = Done st w1"
    and obs: "measure_interrupt st"
  shows "\<exists>r. measure_power ev tapo_ip interval duration csv_name w = Some r
             \<and> terminal_state r = Cancelled
             \<and> final r = st
             \<and> files (after r) = files w \<and> dirs (after r) = dirs w"
proof -
  let ?r = "\<lparr>outcome = Returned, final = st, after = w1\<rparr>"
  have run: "measure_power ev tapo_ip interval duration csv_name w = Some ?r"
    using conn loop obs by (simp add: measure_power_def finish_def)
  have state: "terminal_state ?r = Cancelled"
    using obs by (simp add: terminal_state_def)
  have "w1 = world_of (run_loop ev tapo_ip interval duration w)"
    using loop by simp
  then have frame: "files w1 = files w \<and> dirs w1 = dirs w"
    by (simp add: run_loop_files run_loop_dirs)
  from run state frame show ?thesis by simp
qed

theorem cancel_observed_discards_witness:
  "connect_res cancel_env = ConnOk
   \<and> measure_interrupt (state_of (run_loop cancel_env ''192.168.0.10'' 1 10 demo_world))
   \<and> (\<exists>r. measure_power cancel_env ''192.168.0.10'' 1 10 ''./results/run.csv'' demo_world = Some r
          \<and> terminal_state r = Cancelled
          \<and> length (measurements (final r)) = 2
          \<and> files (after r) = files demo_world \<and> dirs (after r) = dirs demo_world)"
proof -
  have conn: "connect_res cancel_env = ConnOk"
    by (simp add: cancel_env_def mk_env_def)
  obtain st w1 where loop: "run_loop cancel_env ''192.168.0.10'' 1 10 demo_world = Done st w1"
    and obs: "measure_interrupt st" and two: "length (measurements st) = 2"
    by (simp add: cancel_env_def session_defs)
  from cancel_observed_discards[OF conn loop obs, of "''./results/run.csv''"] loop obs two conn
  show ?thesis by auto
qed

section \<open>Read failures\<close>

text \<open>
  Claim C2, evaluated where the code leaves it. The device connects and the very first
  \<^verbatim>\<open>get_energy_usage\<close> times out: the handler prints that it uses the previous value,
  there is none, and line 152 raises \<^verbatim>\<open>UnboundLocalError\<close>. The session aborts with no
  sample and no file, although the later reads of the trace would have succeeded.
\<close>

theorem first_read_failure_aborts:
  "map_option (\<lambda>r. (outcome r, terminal_state r, measurements (final r),
                     files (after r) ''./results/run.csv''))
     (measure_power first_read_fails_env ''192.168.0.10'' 1 10 ''./results/run.csv'' demo_world)
   = Some (Raised UnboundLocalError, Failed, [], None)"
  by (simp add: first_read_fails_env_def session_defs)

text \<open>
  Once a read has succeeded the fallback works as the message says: a pass whose read
  fails records the previous power at its own timestamp and does not raise.
\<close>

lemma read_failure_reuses_previous:
  assumes bound: "current_power st = Some p"
    and failed: "read_res e = ReadError \<or> read_res e = ReadTimeout \<or> read_res e = ReadCancelled"
    and d0: "d \<noteq> 0"
  shows "measurements (step_state (loop_body i d s e st w))
           = measurements st @ [\<lparr>timestamp = stamp e, power_val = p\<rparr>]
         \<and> (\<forall>err st' w'. loop_body i d s e st w \<noteq> Raise err st' w')"
  using assms
  by (auto simp: loop_body_def Let_def split: sleep_result.splits)

section \<open>Cancellation while a read is in flight\<close>

text \<open>
  Claim C5, evaluated where the code leaves it. The task is cancelled while the second
  read is awaited. The bare \<^verbatim>\<open>except:\<close> takes the \<^verbatim>\<open>CancelledError\<close> for a failed read:
  the previous value is recorded, the loop goes on, \<^verbatim>\<open>measure_interrupt\<close> stays false and
  the session completes and writes its file. The cancellation is lost.
\<close>

theorem cancel_during_read_swallowed:
  "map_option (\<lambda>r. (outcome r, terminal_state r, measure_interrupt (final r),
                     files (after r) ''./results/run.csv''))
     (measure_power cancel_in_read_env ''192.168.0.10'' 1 2 ''./results/run.csv'' demo_world)
   = Some (Returned, Completed, False,
           Some (Csv [HeaderLine [''timestamp'', ''power''], DataLine 1000 100,
                      DataLine (10012 / 10) 100]))"
  by (simp add: cancel_in_read_env_def session_defs)

section \<open>Pacing\<close>

text \<open>
  Claim C6 as stated fails. The specification's clock gives the deadline of tick \<open>k\<close> as
  start plus \<open>k\<close> intervals. With reads that take half a second the pacing waits of the
  code end at 3/2 and 3, not at 1 and 2: the latency of every pass is carried into all
  later deadlines.
\<close>

theorem deadline_drifts:
  "map_option (\<lambda>r. (terminal_state r, wakeups (final r)))
     (measure_power drift_env ''192.168.0.10'' 1 3 ''./results/run.csv'' demo_world)
     = Some (Completed, [3 / 2, 3])
   \<and> map (\<lambda>k. nextDeadline (clock0 drift_env) k 1) [1, 2] = [1, 2]
   \<and> map_option (\<lambda>r. wakeups (final r) = map (\<lambda>k. nextDeadline (clock0 drift_env) k 1) [1, 2])
        (measure_power drift_env ''192.168.0.10'' 1 3 ''./results/run.csv'' demo_world)
     = Some False"
  by (simp add: drift_env_def nextDeadline_def session_defs)

lemma loop_body_wakeups:
  "loop_body i d s e st w = Continue st' w' \<Longrightarrow> wakeups st' = wakeups st @ [sleep_deadline (sleep_at e) i]"
  "loop_body i d s e st w = Break st' w' \<Longrightarrow> wakeups st' = wakeups st @ [sleep_deadline (sleep_at e) i]"
  "loop_body i d s e st w = Raise err st' w' \<Longrightarrow> wakeups st' = wakeups st"
  by (auto simp: loop_body_def Let_def split: option.splits sleep_result.splits if_splits)

lemma measure_loop_wakeups:
  "\<exists>n\<le>length es. wakeups (state_of (measure_loop i d en s es st w)) =
       wakeups st @ map (\<lambda>e. sleep_deadline (sleep_at e) i) (take n es)"
proof (induction es arbitrary: st w)
  case Nil
  show ?case by simp
next
  case (Cons e es)
  let ?f = "\<lambda>e. sleep_deadline (sleep_at e) i"
  show ?case
  proof (cases "loop_time e < en")
    case False
    then have "wakeups (state_of (measure_loop i d en s (e # es) st w)) = wakeups st @ map ?f (take 0 (e # es))"
      by simp
    then show ?thesis by blast
  next
    case True
    show ?thesis
    proof (cases "loop_body i d s e st w")
      case (Continue st' w')
      from Cons[of st' w'] obtain n where n: "n \<le> length es"
        and eq: "wakeups (state_of (measure_loop i d en s es st' w')) = wakeups st' @ map ?f (take n es)"
        by blast
      have "wakeups (state_of (measure_loop i d en s (e # es) st w)) =
              wakeups st @ map ?f (take (Suc n) (e # es))"
        using True Continue eq loop_body_wakeups(1)[OF Continue] by simp
      moreover have "Suc n \<le> length (e # es)" using n by simp
      ultimately show ?thesis by blast
    next
      case (Break st' w')
      have "wakeups (state_of (measure_loop i d en s (e # es) st w)) =
              wakeups st @ map ?f (take (Suc 0) (e # es))"
        using True Break loop_body_wakeups(2)[OF Break] by simp
      moreover have "Suc 0 \<le> length (e # es)" by simp
      ultimately show ?thesis by blast
    next
      case (Raise err st' w')
      have "wakeups (state_of (measure_loop i d en s (e # es) st w)) =
              wakeups st @ map ?f (take 0 (e # es))"
        using True Raise loop_body_wakeups(3)[OF Raise] by simp
      then show ?thesis by blast
    qed
  qed
qed

text \<open>
  Claim C6, as amended. The code passes the constant \<^verbatim>\<open>measure_interval\<close> to
  \<^verbatim>\<open>asyncio.sleep\<close>, so the deadline of the pacing wait of pass \<open>k\<close> is the loop time at which
  that wait is entered plus one interval. The session start and the tick index do not
  enter it.
\<close>

theorem pacing_deadline_relative:
  assumes pos: "0 < interval"
    and k: "k < length (wakeups (state_of (run_loop ev tapo_ip interval duration w)))"
  shows "k < length (ticks ev) \<and>
         wakeups (state_of (run_loop ev tapo_ip interval duration w)) ! k
           = sleep_at (ticks ev ! k) + interval"
proof -
  let ?f = "\<lambda>e. sleep_deadline (sleep_at e) interval"
  obtain n where n: "n \<le> length (ticks ev)"
    and eq: "wakeups (state_of (run_loop ev tapo_ip interval duration w)) = map ?f (take n (ticks ev))"
    using measure_loop_wakeups[of "ticks ev" interval duration "clock0 ev + real_of_int duration"
            "wall0 ev" init_state "connecting tapo_ip w"]
    by (auto simp: run_loop_def init_state_def)
  from k eq n have kn: "k < n" by simp
  with n have kt: "k < length (ticks ev)" by simp
  have "wakeups (state_of (run_loop ev tapo_ip interval duration w)) ! k = ?f (ticks ev ! k)"
    using eq kn kt by simp
  with pos kt show ?thesis by (simp add: sleep_deadline_def)
qed

theorem pacing_deadline_relative_witness:
  "(0::real) < 1
   \<and> 1 < length (wakeups (state_of (run_loop drift_env ''192.168.0.10'' 1 3 demo_world)))
   \<and> wakeups (state_of (run_loop drift_env ''192.168.0.10'' 1 3 demo_world)) ! 1
       = sleep_at (ticks drift_env ! 1) + 1
   \<and> sleep_at (ticks drift_env ! 1) + 1 = 3"
proof -
  have pos: "(0::real) < 1" by simp
  have k: "1 < length (wakeups (state_of (run_loop drift_env ''192.168.0.10'' 1 3 demo_world)))"
    by (simp add: drift_env_def session_defs)
  have v: "sleep_at (ticks drift_env ! 1) + 1 = 3"
    by (simp add: drift_env_def mk_env_def mk_tick_def)
  from pacing_deadline_relative[OF pos k] k v show ?thesis by simp
qed

section \<open>Persistence\<close>

text \<open>
  Claim C3 as stated fails. The disk fails while the third of three lines is written.
  The session ends \<open>Failed\<close> and the target path, free before, holds the header and the
  first row: a truncated file.
\<close>

theorem partial_write_left_behind:
  "files demo_world ''./results/run.csv'' = None
   \<and> map_option (\<lambda>r. (terminal_state r, files (after r) ''./results/run.csv'',
                        csv_lines (measurements (final r))))
        (measure_power disk_full_env ''192.168.0.10'' 1 2 ''./results/run.csv'' demo_world)
     = Some (Failed,
             Some (Csv [HeaderLine [''timestamp'', ''power''], DataLine 1000 100]),
             [HeaderLine [''timestamp'', ''power''], DataLine 1000 100, DataLine (10011 / 10) 110])"
  by (simp add: disk_full_env_def session_defs)

lemma finish_files:
  "(terminal_state (finish dk csv_name st w) = Completed
      \<and> files (after (finish dk csv_name st w)) = (files w)(csv_name \<mapsto> Csv (csv_lines (measurements st))))
   \<or> (terminal_state (finish dk csv_name st w) \<noteq> Completed
      \<and> files (after (finish dk csv_name st w)) = files w)
   \<or> (terminal_state (finish dk csv_name st w) = Failed
      \<and> (\<exists>n. dk = WriteFailsAfter n \<and> n < length (csv_lines (measurements st))
             \<and> files (after (finish dk csv_name st w))
                 = (files w)(csv_name \<mapsto> Csv (take n (csv_lines (measurements st))))))"
  by (cases dk) (simp_all add: finish_def terminal_state_def write_csv_def Let_def)

lemma finish_final: "final (finish dk csv_name st w) = st"
  by (simp add: finish_def write_csv_def Let_def split: disk_result.splits)

text \<open>
  Claim C3, as amended. The file is written in place, and only after a loop that ended
  without cancellation. For every session that ends, one of three holds: the session is
  \<open>Completed\<close> and the file at the final path holds the header and every sample; or the
  session is not \<open>Completed\<close> and the file system is what it was; or the write failed
  after \<open>n\<close> lines, the session is \<open>Failed\<close>, and these \<open>n\<close> lines are at the final path.
\<close>

theorem persistence_in_place:
  assumes run: "measure_power ev tapo_ip interval duration csv_name w = Some r"
  shows "(terminal_state r = Completed
            \<and> files (after r) = (files w)(csv_name \<mapsto> Csv (csv_lines (measurements (final r)))))
         \<or> (terminal_state r \<noteq> Completed \<and> files (after r) = files w)
         \<or> (terminal_state r = Failed
            \<and> (\<exists>n. disk ev = WriteFailsAfter n \<and> n < length (csv_lines (measurements (final r)))
                   \<and> files (after r)
                       = (files w)(csv_name \<mapsto> Csv (take n (csv_lines (measurements (final r)))))))"
proof (cases "connect_res ev")
  case ConnOk
  let ?res = "run_loop ev tapo_ip interval duration w"
  show ?thesis
  proof (cases ?res)
    case (Pending st w1)
    with ConnOk run show ?thesis by (simp add: measure_power_def)
  next
    case (Crashed err st w1)
    with ConnOk run have r: "r = \<lparr>outcome = Raised err, final = st, after = w1\<rparr>"
      by (simp add: measure_power_def)
    have "files w1 = files w" using run_loop_files[of ev tapo_ip interval duration w] Crashed by simp
    moreover have "terminal_state r \<noteq> Completed" using r by (simp add: terminal_state_def)
    ultimately show ?thesis using r by simp
  next
    case (Done st w1)
    with ConnOk run have r: "r = finish (disk ev) csv_name st w1" by (simp add: measure_power_def)
    have w1: "files w1 = files w" using run_loop_files[of ev tapo_ip interval duration w] Done by simp
    from finish_files[of "disk ev" csv_name st w1] show ?thesis
      unfolding r finish_final w1 .
  qed
next
  case ConnTimeout
  with run have "files (after r) = files w" "terminal_state r \<noteq> Completed"
    by (auto simp: measure_power_def connecting_def terminal_state_def)
  then show ?thesis by simp
next
  case ConnError
  with run have "files (after r) = files w" "terminal_state r \<noteq> Completed"
    by (auto simp: measure_power_def connecting_def terminal_state_def)
  then show ?thesis by simp
next
  case ConnCancelled
  with run have "files (after r) = files w" "terminal_state r \<noteq> Completed"
    by (auto simp: measure_power_def connecting_def terminal_state_def)
  then show ?thesis by simp
qed

theorem persistence_in_place_witness:
  "\<exists>r. measure_power steady_env ''192.168.0.10'' 1 2 ''./results/run.csv'' demo_world = Some r
       \<and> terminal_state r = Completed
       \<and> length (measurements (final r)) = 2
       \<and> files (after r) = (files demo_world)(''./results/run.csv'' \<mapsto>
                               Csv (csv_lines (measurements (final r))))"
proof -
  obtain r where run: "measure_power steady_env ''192.168.0.10'' 1 2 ''./results/run.csv'' demo_world
                         = Some r"
    and comp: "terminal_state r = Completed" and two: "length (measurements (final r)) = 2"
    by (simp add: steady_env_def session_defs)
  from persistence_in_place[OF run] comp two run show ?thesis by auto
qed

section \<open>The loop samples before it waits\<close>

text \<open>
  Claim C10 as stated fails. A session with a positive duration and a connected device
  records no sample when its first read fails (it ends \<open>Failed\<close>, as shown for claim
  C2), and none when the process is stalled for the whole duration between the
  computation of \<^verbatim>\<open>end_time\<close> and the first test of the loop: that session completes
  with a file that holds the header alone.
\<close>

theorem session_without_sample:
  "connect_res first_read_fails_env = ConnOk \<and> connect_res stalled_env = ConnOk
   \<and> map_option (\<lambda>r. (terminal_state r, measurements (final r), wakeups (final r)))
        (measure_power first_read_fails_env ''192.168.0.10'' 1 10 ''./results/run.csv'' demo_world)
      = Some (Failed, [], [])
   \<and> map_option (\<lambda>r. (terminal_state r, measurements (final r),
                        files (after r) ''./results/run.csv''))
        (measure_power stalled_env ''192.168.0.10'' 1 1 ''./results/run.csv'' demo_world)
      = Some (Completed, [], Some (Csv [HeaderLine [''timestamp'', ''power'']]))"
  by (simp add: first_read_fails_env_def stalled_env_def session_defs)

lemma loop_body_extends:
  "\<exists>more. measurements (step_state (loop_body i d s e st w)) = measurements st @ more"
  by (simp add: loop_body_def Let_def split: option.splits sleep_result.splits)

lemma measure_loop_extends:
  "\<exists>more. measurements (state_of (measure_loop i d en s es st w)) = measurements st @ more"
proof (rule measure_loop_invariant
         [where P = "\<lambda>st' w'. \<exists>more. measurements st' = measurements st @ more"])
  show "\<exists>more. measurements st = measurements st @ more" by simp
next
  fix e :: tick and st' :: loop_state and w' :: world
  assume "\<exists>more. measurements st' = measurements st @ more"
  then obtain a where a: "measurements st' = measurements st @ a" by blast
  obtain b where "measurements (step_state (loop_body i d s e st' w')) = measurements st' @ b"
    using loop_body_extends[of i d s e st' w'] by blast
  with a have "measurements (step_state (loop_body i d s e st' w')) = measurements st @ (a @ b)"
    by simp
  then show "\<exists>more. measurements (step_state (loop_body i d s e st' w')) = measurements st @ more"
    by blast
qed

lemma loop_body_sample_before_wait:
  "length (wakeups st) \<le> length (measurements st) \<Longrightarrow>
   length (wakeups (step_state (loop_body i d s e st w)))
     \<le> length (measurements (step_state (loop_body i d s e st w)))"
  by (simp add: loop_body_def Let_def split: option.splits sleep_result.splits)

lemma measure_loop_sample_before_wait:
  "length (wakeups st) \<le> length (measurements st) \<Longrightarrow>
   length (wakeups (state_of (measure_loop i d en s es st w)))
     \<le> length (measurements (state_of (measure_loop i d en s es st w)))"
  by (rule measure_loop_invariant
        [where P = "\<lambda>st' w'. length (wakeups st') \<le> length (measurements st')"])
     (simp_all add: loop_body_sample_before_wait)

lemma loop_body_ReadOk:
  "read_res e = ReadOk p \<Longrightarrow>
   measurements (step_state (loop_body i d s e st w))
     = measurements st @ [\<lparr>timestamp = stamp e, power_val = p\<rparr>]"
  by (simp add: loop_body_def Let_def split: sleep_result.splits)

lemma first_pass_records:
  assumes test: "loop_time e < en" and rd: "read_res e = ReadOk p"
  shows "\<exists>more. measurements (state_of (measure_loop i d en s (e # es) st w))
           = measurements st @ \<lparr>timestamp = stamp e, power_val = p\<rparr> # more"
proof (cases "loop_body i d s e st w")
  case (Continue st1 w1)
  with loop_body_ReadOk[OF rd, of i d s st w]
  have one: "measurements st1 = measurements st @ [\<lparr>timestamp = stamp e, power_val = p\<rparr>]" by simp
  obtain more where "measurements (state_of (measure_loop i d en s es st1 w1)) = measurements st1 @ more"
    using measure_loop_extends[of i d en s es st1 w1] by blast
  with one test Continue show ?thesis by simp
next
  case (Break st1 w1)
  with loop_body_ReadOk[OF rd, of i d s st w] test show ?thesis by simp
next
  case (Raise err st1 w1)
  with loop_body_ReadOk[OF rd, of i d s st w] test show ?thesis by simp
qed

lemma finish_Completed:
  assumes "terminal_state (finish dk csv_name st w) = Completed"
  shows "files (after (finish dk csv_name st w)) csv_name = Some (Csv (csv_lines (measurements st)))"
  using assms
  by (auto simp: finish_def terminal_state_def write_csv_def Let_def
           split: if_splits disk_result.splits)

text \<open>
  Claim C10, as amended. In a session with a positive duration whose device connected,
  whose first test of the loop reads the clock less than the duration after \<^verbatim>\<open>end_time\<close>
  was computed, and whose first read succeeds, that reading is recorded as the first
  sample, and the pacing waits never outnumber the samples: no wait is issued before a
  sample is recorded. If such a session completes, its file holds the header and at least
  one data row, the first being that reading.
\<close>

theorem first_sample_recorded:
  assumes conn: "connect_res ev = ConnOk"
    and pos: "0 < duration"
    and first: "ticks ev = e # es"
    and test: "loop_time e - clock0 ev < real_of_int duration"
    and rd: "read_res e = ReadOk p"
  shows "(\<exists>more. measurements (state_of (run_loop ev tapo_ip interval duration w))
                   = \<lparr>timestamp = stamp e, power_val = p\<rparr> # more)
         \<and> length (wakeups (state_of (run_loop ev tapo_ip interval duration w)))
             \<le> length (measurements (state_of (run_loop ev tapo_ip interval duration w)))
         \<and> (\<forall>r. measure_power ev tapo_ip interval duration csv_name w = Some r \<longrightarrow>
               final r = state_of (run_loop ev tapo_ip interval duration w)
               \<and> (terminal_state r = Completed \<longrightarrow>
                    (\<exists>rows. files (after r) csv_name =
                       Some (Csv (HeaderLine [''timestamp'', ''power''] # DataLine (stamp e) p # rows)))))"
proof -
  let ?res = "run_loop ev tapo_ip interval duration w"
  have pass: "loop_time e < clock0 ev + real_of_int duration" using test by simp
  obtain more where more: "measurements (state_of ?res) = \<lparr>timestamp = stamp e, power_val = p\<rparr> # more"
    using first_pass_records[OF pass rd, of interval duration "wall0 ev" es init_state
            "connecting tapo_ip w"] first
    by (auto simp: run_loop_def init_state_def)
  have inv: "length (wakeups (state_of ?res)) \<le> length (measurements (state_of ?res))"
    unfolding run_loop_def
    by (rule measure_loop_sample_before_wait) (simp add: init_state_def)
  have fin: "final r = state_of ?res
             \<and> (terminal_state r = Completed \<longrightarrow>
                  (\<exists>rows. files (after r) csv_name =
                     Some (Csv (HeaderLine [''timestamp'', ''power''] # DataLine (stamp e) p # rows))))"
    if run: "measure_power ev tapo_ip interval duration csv_name w = Some r" for r
  proof (cases ?res)
    case (Pending st w1)
    with conn run show ?thesis by (simp add: measure_power_def)
  next
    case (Crashed err st w1)
    with conn run have r: "r = \<lparr>outcome = Raised err, final = st, after = w1\<rparr>"
      by (simp add: measure_power_def)
    then show ?thesis using Crashed by (simp add: terminal_state_def)
  next
    case (Done st w1)
    with conn run have r: "r = finish (disk ev) csv_name st w1"
      by (simp add: measure_power_def)
    have f: "final r = st" using r by (simp add: finish_final)
    have "files (after r) csv_name = Some (Csv (csv_lines (measurements st)))"
      if "terminal_state r = Completed"
      using that r finish_Completed[of "disk ev" csv_name st w1] by simp
    then show ?thesis using f Done more by (auto simp: csv_lines_def)
  qed
  from more inv fin show ?thesis by blast
qed

theorem first_sample_recorded_witness:
  "connect_res steady_env = ConnOk \<and> (0::int) < 2
   \<and> loop_time (hd (ticks steady_env)) - clock0 steady_env < real_of_int 2
   \<and> read_res (hd (ticks steady_env)) = ReadOk 100
   \<and> (\<exists>r more rows. measure_power steady_env ''192.168.0.10'' 1 2 ''./results/run.csv'' demo_world = Some r
          \<and> terminal_state r = Completed
          \<and> measurements (final r) = \<lparr>timestamp = 1000, power_val = 100\<rparr> # more
          \<and> files (after r) ''./results/run.csv'' =
                Some (Csv (HeaderLine [''timestamp'', ''power''] # DataLine 1000 100 # rows)))"
proof -
  let ?e = "mk_tick 0 (ReadOk 100) 1000 (1 / 10) SleepDone"
  have conn: "connect_res steady_env = ConnOk"
    by (simp add: steady_env_def mk_env_def)
  have pos: "(0::int) < 2" by simp
  have first: "ticks steady_env = ?e #
      [mk_tick (11 / 10) (ReadOk 110) (10011 / 10) (12 / 10) SleepDone,
       mk_tick (22 / 10) (ReadOk 100) 1002 (23 / 10) SleepDone]"
    by (simp add: steady_env_def mk_env_def)
  have test: "loop_time ?e - clock0 steady_env < real_of_int 2"
    by (simp add: steady_env_def mk_env_def mk_tick_def)
  have rd: "read_res ?e = ReadOk 100" by (simp add: mk_tick_def)
  have st: "stamp ?e = 1000" by (simp add: mk_tick_def)
  obtain r where run: "measure_power steady_env ''192.168.0.10'' 1 2 ''./results/run.csv'' demo_world
                         = Some r"
    and comp: "terminal_state r = Completed"
    by (simp add: steady_env_def session_defs)
  from first_sample_recorded[OF conn pos first test rd, of "''192.168.0.10''" 1 demo_world
         "''./results/run.csv''"] run comp conn first test rd st
  show ?thesis by auto
qed

section \<open>A duration shorter than one interval\<close>

text \<open>
  Claim C8 as stated fails. With a duration of one second and an interval of two the
  loop is entered once: the session records one sample, not none, and its file holds the
  header and one data row.
\<close>

theorem short_duration_still_samples:
  "real_of_int 1 < (2::real)
   \<and> map_option (\<lambda>r. (terminal_state r, measurements (final r), files (after r) ''./results/run.csv''))
        (measure_power short_env ''192.168.0.10'' 2 1 ''./results/run.csv'' demo_world)
     = Some (Completed, [\<lparr>timestamp = 1000, power_val = 100\<rparr>],
             Some (Csv [HeaderLine [''timestamp'', ''power''], DataLine 1000 100]))"
  by (simp add: short_env_def session_defs)

text \<open>
  Claim C8, as amended. Take a session whose duration is shorter than one interval, whose
  device connects, whose first test of the loop reads a monotonic clock less than the
  duration after \<^verbatim>\<open>end_time\<close> was computed, and whose second test comes no earlier than one
  interval after the first pacing wait was entered. The session ends within its first
  pass or at its second test, with at most one sample. If it completes, the first read
  succeeded, exactly that one sample is recorded, and the file holds the header and that
  one row. It does complete when the first read succeeds, the wait is not cancelled and
  the disk does not fail.
\<close>

theorem short_duration_at_most_one_sample:
  assumes conn: "connect_res ev = ConnOk"
    and short: "real_of_int duration < interval"
    and first: "ticks ev = e0 # e1 # es"
    and t0: "clock0 ev \<le> loop_time e0"
    and test: "loop_time e0 - clock0 ev < real_of_int duration"
    and mono: "loop_time e0 \<le> sleep_at e0"
    and slept: "sleep_at e0 + interval \<le> loop_time e1"
  shows "\<exists>r. measure_power ev tapo_ip interval duration csv_name w = Some r
             \<and> length (measurements (final r)) \<le> 1
             \<and> (terminal_state r = Completed \<longrightarrow>
                   (\<exists>p. read_res e0 = ReadOk p
                      \<and> measurements (final r) = [\<lparr>timestamp = stamp e0, power_val = p\<rparr>]
                      \<and> files (after r) csv_name =
                          Some (Csv [HeaderLine [''timestamp'', ''power''], DataLine (stamp e0) p])))
             \<and> (\<forall>p. read_res e0 = ReadOk p \<longrightarrow> sleep_res e0 = SleepDone \<longrightarrow> disk ev = DiskOk
                   \<longrightarrow> terminal_state r = Completed)"
proof -
  have d0: "duration \<noteq> 0" using t0 test by auto
  have pass: "loop_time e0 < clock0 ev + real_of_int duration" using test by simp
  have stop: "\<not> loop_time e1 < clock0 ev + real_of_int duration"
    using short t0 mono slept by linarith
  show ?thesis
  proof (cases "read_res e0")
    case (ReadOk p)
    show ?thesis
    proof (cases "sleep_res e0")
      case SleepDone
      show ?thesis
        using conn first ReadOk SleepDone d0 pass stop
        by (cases "disk ev")
           (simp_all add: measure_power_def run_loop_def loop_body_def Let_def init_state_def
              finish_def write_csv_def csv_lines_def terminal_state_def connecting_def)
    next
      case SleepCancelled
      show ?thesis
        using conn first ReadOk SleepCancelled d0 pass
        by (simp add: measure_power_def run_loop_def loop_body_def Let_def init_state_def
              finish_def terminal_state_def connecting_def)
    qed
  next
    case ReadError
    then show ?thesis
      using conn first pass
      by (simp add: measure_power_def run_loop_def loop_body_def Let_def init_state_def
            terminal_state_def connecting_def)
  next
    case ReadTimeout
    then show ?thesis
      using conn first pass
      by (simp add: measure_power_def run_loop_def loop_body_def Let_def init_state_def
            terminal_state_def connecting_def)
  next
    case ReadCancelled
    then show ?thesis
      using conn first pass
      by (simp add: measure_power_def run_loop_def loop_body_def Let_def init_state_def
            terminal_state_def connecting_def)
  qed
qed

theorem short_duration_at_most_one_sample_witness:
  "connect_res short_env = ConnOk \<and> real_of_int 1 < (2::real)
   \<and> (\<exists>r. measure_power short_env ''192.168.0.10'' 2 1 ''./results/run.csv'' demo_world = Some r
          \<and> terminal_state r = Completed
          \<and> measurements (final r) = [\<lparr>timestamp = 1000, power_val = 100\<rparr>]
          \<and> files (after r) ''./results/run.csv'' =
                 Some (Csv [HeaderLine [''timestamp'', ''power''], DataLine 1000 100]))"
proof -
  let ?e0 = "mk_tick 0 (ReadOk 100) 1000 (1 / 10) SleepDone"
  let ?e1 = "mk_tick (21 / 10) (ReadOk 100) (10021 / 10) (22 / 10) SleepDone"
  have conn: "connect_res short_env = ConnOk" by (simp add: short_env_def mk_env_def)
  have short: "real_of_int 1 < (2::real)" by simp
  have first: "ticks short_env = ?e0 # ?e1 # []" by (simp add: short_env_def mk_env_def)
  have t0: "clock0 short_env \<le> loop_time ?e0" by (simp add: short_env_def mk_env_def mk_tick_def)
  have test: "loop_time ?e0 - clock0 short_env < real_of_int 1"
    by (simp add: short_env_def mk_env_def mk_tick_def)
  have mono: "loop_time ?e0 \<le> sleep_at ?e0" by (simp add: mk_tick_def)
  have slept: "sleep_at ?e0 + 2 \<le> loop_time ?e1" by (simp add: mk_tick_def)
  have rd: "read_res ?e0 = ReadOk 100" by (simp add: mk_tick_def)
  have sl: "sleep_res ?e0 = SleepDone" by (simp add: mk_tick_def)
  have dk: "disk short_env = DiskOk" by (simp add: short_env_def mk_env_def)
  have st: "stamp ?e0 = 1000" by (simp add: mk_tick_def)
  from short_duration_at_most_one_sample[OF conn short first t0 test mono slept,
         of "''192.168.0.10''" "''./results/run.csv''" demo_world]
  obtain r where r: "measure_power short_env ''192.168.0.10'' 2 1 ''./results/run.csv'' demo_world = Some r"
    and comp: "terminal_state r = Completed \<longrightarrow>
                   (\<exists>p. read_res ?e0 = ReadOk p
                      \<and> measurements (final r) = [\<lparr>timestamp = stamp ?e0, power_val = p\<rparr>]
                      \<and> files (after r) ''./results/run.csv'' =
                          Some (Csv [HeaderLine [''timestamp'', ''power''], DataLine (stamp ?e0) p]))"
    and ok: "\<forall>p. read_res ?e0 = ReadOk p \<longrightarrow> sleep_res ?e0 = SleepDone \<longrightarrow> disk short_env = DiskOk
                   \<longrightarrow> terminal_state r = Completed"
    by blast
  from ok rd sl dk have c: "terminal_state r = Completed" by blast
  with comp rd st have
    "measurements (final r) = [\<lparr>timestamp = 1000, power_val = 100\<rparr>]
     \<and> files (after r) ''./results/run.csv'' =
          Some (Csv [HeaderLine [''timestamp'', ''power''], DataLine 1000 100])"
    by auto
  with r c conn short show ?thesis by blast
qed

section \<open>Progress reports\<close>

text \<open>
  Claim C9 as stated fails. A read that was begun in time and runs into its timeout ends
  5.6 seconds into a session of one second: the progress bar is set to 560 and the label
  to \<open>-4\<close> seconds.
\<close>

theorem progress_not_clamped:
  "map_option (\<lambda>r. (terminal_state r, gui_log (after r)))
     (measure_power late_env ''192.168.0.10'' (1 / 2) 1 ''./results/run.csv'' demo_world)
   = Some (Completed,
           [ProgressBar 0, RemainingLabel 1, ProgressBar 560, RemainingLabel (- 4), ProgressBar 100])
   \<and> \<not> gui_in_range (ProgressBar 560) \<and> \<not> gui_in_range (RemainingLabel (- 4))"
  by (simp add: late_env_def session_defs)

lemma py_int_nonneg: "0 \<le> x \<Longrightarrow> 0 \<le> py_int x"
  by (simp add: py_int_def)

lemma pass_reports_in_range:
  assumes "0 < d" and "s \<le> wall_now e" and "wall_now e \<le> s + real_of_int d"
  shows "\<forall>g\<in>set (pass_reports d s e). gui_in_range g"
proof -
  have a: "0 \<le> progress_percent (wall_now e - s) d"
    using assms by (simp add: progress_percent_def)
  have b: "progress_percent (wall_now e - s) d \<le> 100"
    using assms by (simp add: progress_percent_def field_simps)
  have c: "0 \<le> remaining_time d (wall_now e - s)"
    using assms by (simp add: remaining_time_def py_int_nonneg)
  from a b c show ?thesis by (simp add: pass_reports_def)
qed

lemma loop_body_reports:
  "loop_body i d s e st w = Continue st' w' \<Longrightarrow> gui_log w' = gui_log w @ pass_reports d s e"
  "loop_body i d s e st w = Break st' w' \<Longrightarrow> gui_log w' = gui_log w @ pass_reports d s e"
  "loop_body i d s e st w = Raise err st' w' \<Longrightarrow> gui_log w' = gui_log w"
  by (auto simp: loop_body_def Let_def pass_reports_def
           split: option.splits sleep_result.splits if_splits)

lemma measure_loop_reports:
  "\<exists>n\<le>length es. gui_log (world_of (measure_loop i d en s es st w)) =
       gui_log w @ concat (map (pass_reports d s) (take n es))"
proof (induction es arbitrary: st w)
  case Nil
  show ?case by simp
next
  case (Cons e es)
  let ?f = "pass_reports d s"
  show ?case
  proof (cases "loop_time e < en")
    case False
    then have "gui_log (world_of (measure_loop i d en s (e # es) st w))
                 = gui_log w @ concat (map ?f (take 0 (e # es)))"
      by simp
    then show ?thesis by blast
  next
    case True
    show ?thesis
    proof (cases "loop_body i d s e st w")
      case (Continue st' w')
      from Cons[of st' w'] obtain n where n: "n \<le> length es"
        and eq: "gui_log (world_of (measure_loop i d en s es st' w'))
                   = gui_log w' @ concat (map ?f (take n es))"
        by blast
      have "gui_log (world_of (measure_loop i d en s (e # es) st w)) =
              gui_log w @ concat (map ?f (take (Suc n) (e # es)))"
        using True Continue eq loop_body_reports(1)[OF Continue] by simp
      moreover have "Suc n \<le> length (e # es)" using n by simp
      ultimately show ?thesis by blast
    next
      case (Break st' w')
      have "gui_log (world_of (measure_loop i d en s (e # es) st w)) =
              gui_log w @ concat (map ?f (take (Suc 0) (e # es)))"
        using True Break loop_body_reports(2)[OF Break] by simp
      moreover have "Suc 0 \<le> length (e # es)" by simp
      ultimately show ?thesis by blast
    next
      case (Raise err st' w')
      have "gui_log (world_of (measure_loop i d en s (e # es) st w)) =
              gui_log w @ concat (map ?f (take 0 (e # es)))"
        using True Raise loop_body_reports(3)[OF Raise] by simp
      then show ?thesis by blast
    qed
  qed
qed

lemma finish_reports:
  "gui_log (after (finish dk csv_name st w)) = gui_log w
   \<or> gui_log (after (finish dk csv_name st w)) = gui_log w @ [ProgressBar 100]"
  by (simp add: finish_def write_csv_def Let_def split: disk_result.splits)

text \<open>
  Claim C9, as amended. The code does not clamp. What a session with a connected device
  and a positive duration writes to the progress bar and the label during its loop is,
  pass by pass, the pair computed from that pass's reading of the wall clock; after the
  loop the coroutine adds at most the final 100. For every pass in which the elapsed
  wall-clock time lies between 0 and the duration, the percentage of its report lies in
  \<open>[0, 100]\<close> and its remaining whole seconds are an integer that is not negative,
  whatever the other passes report.
\<close>

theorem progress_report_in_range:
  assumes conn: "connect_res ev = ConnOk"
    and pos: "0 < duration"
  shows "\<exists>n\<le>length (ticks ev).
           gui_log (world_of (run_loop ev tapo_ip interval duration w))
             = gui_log w @ concat (map (pass_reports duration (wall0 ev)) (take n (ticks ev)))
           \<and> (\<forall>k<n. wall0 ev \<le> wall_now (ticks ev ! k)
                       \<and> wall_now (ticks ev ! k) \<le> wall0 ev + real_of_int duration
                  \<longrightarrow> (\<forall>g\<in>set (pass_reports duration (wall0 ev) (ticks ev ! k)). gui_in_range g))
           \<and> (\<forall>r. measure_power ev tapo_ip interval duration csv_name w = Some r \<longrightarrow>
                  gui_log (after r) = gui_log (world_of (run_loop ev tapo_ip interval duration w))
                  \<or> gui_log (after r)
                      = gui_log (world_of (run_loop ev tapo_ip interval duration w)) @ [ProgressBar 100])"
proof -
  let ?res = "run_loop ev tapo_ip interval duration w"
  obtain n where n: "n \<le> length (ticks ev)"
    and eq: "gui_log (world_of ?res)
               = gui_log w @ concat (map (pass_reports duration (wall0 ev)) (take n (ticks ev)))"
    using measure_loop_reports[of "ticks ev" interval duration "clock0 ev + real_of_int duration"
            "wall0 ev" init_state "connecting tapo_ip w"]
    by (auto simp: run_loop_def connecting_def)
  have rng: "\<forall>k<n. wall0 ev \<le> wall_now (ticks ev ! k)
                       \<and> wall_now (ticks ev ! k) \<le> wall0 ev + real_of_int duration
                  \<longrightarrow> (\<forall>g\<in>set (pass_reports duration (wall0 ev) (ticks ev ! k)). gui_in_range g)"
    using pass_reports_in_range[OF pos] by blast
  have fin: "gui_log (after r) = gui_log (world_of ?res)
             \<or> gui_log (after r) = gui_log (world_of ?res) @ [ProgressBar 100]"
    if run: "measure_power ev tapo_ip interval duration csv_name w = Some r" for r
  proof (cases ?res)
    case (Pending st w1)
    with conn run show ?thesis by (simp add: measure_power_def)
  next
    case (Crashed err st w1)
    with conn run show ?thesis by (auto simp: measure_power_def)
  next
    case (Done st w1)
    with conn run have "r = finish (disk ev) csv_name st w1" by (simp add: measure_power_def)
    with Done finish_reports[of "disk ev" csv_name st w1] show ?thesis by simp
  qed
  from n eq rng fin show ?thesis by blast
qed

theorem progress_report_in_range_witness:
  "connect_res late_env = ConnOk \<and> (0::int) < 1
   \<and> gui_log (world_of (run_loop late_env ''192.168.0.10'' (1 / 2) 1 demo_world))
       = pass_reports 1 (wall0 late_env) (ticks late_env ! 0)
         @ pass_reports 1 (wall0 late_env) (ticks late_env ! 1)
   \<and> wall0 late_env \<le> wall_now (ticks late_env ! 0)
   \<and> wall_now (ticks late_env ! 0) \<le> wall0 late_env + real_of_int 1
   \<and> list_all gui_in_range (pass_reports 1 (wall0 late_env) (ticks late_env ! 0))
   \<and> pass_reports 1 (wall0 late_env) (ticks late_env ! 0) = [ProgressBar 0, RemainingLabel 1]"
proof -
  have conn: "connect_res late_env = ConnOk" by (simp add: late_env_def mk_env_def)
  have pos: "(0::int) < 1" by simp
  have within: "wall0 late_env \<le> wall_now (ticks late_env ! 0)
                \<and> wall_now (ticks late_env ! 0) \<le> wall0 late_env + real_of_int 1"
    by (simp add: late_env_def mk_env_def mk_tick_def)
  have len: "length (gui_log (world_of (run_loop late_env ''192.168.0.10'' (1 / 2) 1 demo_world))) = 4"
    and emp: "gui_log demo_world = []"
    by (simp_all add: late_env_def session_defs)
  have val: "pass_reports 1 (wall0 late_env) (ticks late_env ! 0) = [ProgressBar 0, RemainingLabel 1]"
    by (simp add: pass_reports_def late_env_def session_defs)
  have tl: "length (ticks late_env) = 3" by (simp add: late_env_def mk_env_def)
  from progress_report_in_range[OF conn pos, of "''192.168.0.10''" "1 / 2" demo_world "''./results/run.csv''"]
  obtain n where n: "n \<le> length (ticks late_env)"
    and eq: "gui_log (world_of (run_loop late_env ''192.168.0.10'' (1 / 2) 1 demo_world))
               = gui_log demo_world @ concat (map (pass_reports 1 (wall0 late_env)) (take n (ticks late_env)))"
    and rng: "\<forall>k<n. wall0 late_env \<le> wall_now (ticks late_env ! k)
                       \<and> wall_now (ticks late_env ! k) \<le> wall0 late_env + real_of_int 1
                  \<longrightarrow> (\<forall>g\<in>set (pass_reports 1 (wall0 late_env) (ticks late_env ! k)). gui_in_range g)"
    by blast
  have "length (concat (map (pass_reports 1 (wall0 late_env)) (take n (ticks late_env)))) = 2 * n"
    using n by (induction n) (simp_all add: take_Suc_conv_app_nth pass_reports_def)
  with eq len emp have n2: "n = 2" by simp
  have "take 2 (ticks late_env) = [ticks late_env ! 0, ticks late_env ! 1]"
    using tl by (simp add: take_Suc_conv_app_nth numeral_2_eq_2)
  with eq emp n2 have split: "gui_log (world_of (run_loop late_env ''192.168.0.10'' (1 / 2) 1 demo_world))
       = pass_reports 1 (wall0 late_env) (ticks late_env ! 0)
         @ pass_reports 1 (wall0 late_env) (ticks late_env ! 1)"
    by simp
  have "(0::nat) < n" using n2 by simp
  with rng within have "\<forall>g\<in>set (pass_reports 1 (wall0 late_env) (ticks late_env ! 0)). gui_in_range g"
    by blast
  then have "list_all gui_in_range (pass_reports 1 (wall0 late_env) (ticks late_env ! 0))"
    by (simp add: list_all_iff)
  with conn pos split within val show ?thesis by simp
qed

section \<open>Validation at the start\<close>

text \<open>The unfolding that evaluates a concrete start.\<close>

lemmas start_defs =
  start_measurement_threadsafe_def measure_power_async_setup_def measure_power_async_def
  save_config_def makedirs_def path_exists_def get_unique_filename_def probe_filename.simps
  path_join_def demo_form_def no_ip_form_def zero_duration_form_def

text \<open>
  Claim C7 as stated fails. A form without an address is rejected, but \<^verbatim>\<open>config.json\<close>,
  absent before, has been written by then. A form with a duration of zero is not
  rejected at all: the device is asked for the plug and a file with the header alone is
  written.
\<close>

theorem invalid_config_touches_disk_and_device:
  "files demo_world ''config.json'' = None
   \<and> map_option (\<lambda>(res, w). (res, files w ''config.json'' = None, port w))
        (start_measurement_threadsafe ConfigSaved no_ip_form demo_world)
      = Some (Rejected, False, [])
   \<and> map_option (\<lambda>r. (terminal_state r, port (after r), files (after r) ''./results/run.csv''))
        (Option.bind (measure_power_async ConfigSaved zero_duration_form steady_env demo_world) ran)
      = Some (Completed, [P110 ''192.168.0.10'' ''user'' ''secret''],
              Some (Csv [HeaderLine [''timestamp'', ''power'']]))"
  by (simp add: start_defs steady_env_def session_defs decimal.simps)

text \<open>
  Claim C7, as amended. When the texts of interval and duration convert and the address
  or the filename is empty, the start never touches the device port, creates no task,
  makes no folder and changes no file but \<^verbatim>\<open>config.json\<close>. Before the check it stores the
  values of the form in \<^verbatim>\<open>tapo_config\<close> and writes them to \<^verbatim>\<open>config.json\<close>. If that
  write succeeds, the start is rejected with the error dialog and schedules the widgets
  to be enabled again; if it fails, the start ends with its \<^verbatim>\<open>OSError\<close>, shows no dialog
  and leaves the widgets scheduled to be disabled. Interval and duration are not checked
  for their sign.
\<close>

theorem missing_input_rejected:
  assumes iv: "interval_var f = Some i"
    and dv: "duration_var f = Some d"
    and missing: "ip_var f = [] \<or> filename_var f = []"
  shows "\<exists>w1. measure_power_async cd f ev w
                 = Some (NotStarted (if cd = ConfigSaved then Rejected else SetupRaised OSError) w1)
              \<and> port w1 = port w \<and> dirs w1 = dirs w
              \<and> tasks w1 = tasks w \<and> measurement_task w1 = measurement_task w
              \<and> tapo_config w1 =
                   (tapo_config w)\<lparr>username := username_var f, password := password_var f,
                                    results_folder := folder_var f,
                                    measure_interval := i, measure_duration := d\<rparr>
              \<and> (\<forall>p. p \<noteq> ''config.json'' \<longrightarrow> files w1 p = files w p)
              \<and> files w1 ''config.json'' =
                   (case cd of
                      ConfigSaved \<Rightarrow> Some (ConfigJson (tapo_config w1))
                    | ConfigOpenFails \<Rightarrow> files w ''config.json''
                    | ConfigWriteFails \<Rightarrow> Some TruncatedJson)
              \<and> dialogs w1 =
                   (if cd = ConfigSaved
                    then dialogs w @ [ShowError ''Error'' ''IP address and filename are required.'']
                    else dialogs w)
              \<and> tk_queue w1 =
                   (if cd = ConfigSaved
                    then tk_queue w @ [SetAllWidgetsState Disabled, SetAllWidgetsState Normal]
                    else tk_queue w @ [SetAllWidgetsState Disabled])"
  using iv dv missing
  by (cases cd)
     (auto simp: measure_power_async_def measure_power_async_setup_def Let_def save_config_def)

theorem missing_input_rejected_witness:
  "interval_var no_ip_form = Some 1 \<and> duration_var no_ip_form = Some 2 \<and> ip_var no_ip_form = []
   \<and> (\<exists>w1. measure_power_async ConfigSaved no_ip_form steady_env demo_world
               = Some (NotStarted Rejected w1)
          \<and> port w1 = [] \<and> dirs w1 = {} \<and> tasks w1 = []
          \<and> files w1 ''config.json'' = Some (ConfigJson (tapo_config w1))
          \<and> measure_interval (tapo_config w1) = 1 \<and> measure_duration (tapo_config w1) = 2)"
proof -
  have iv: "interval_var no_ip_form = Some 1" by (simp add: no_ip_form_def demo_form_def)
  have dv: "duration_var no_ip_form = Some 2" by (simp add: no_ip_form_def demo_form_def)
  have ip: "ip_var no_ip_form = []" by (simp add: no_ip_form_def demo_form_def)
  then have missing: "ip_var no_ip_form = [] \<or> filename_var no_ip_form = []" by simp
  from missing_input_rejected[OF iv dv missing, of ConfigSaved steady_env demo_world] iv dv ip
  show ?thesis by (auto simp: demo_world_def)
qed

section \<open>A start while a session is active\<close>

text \<open>
  Claim C4 as stated fails. A second call of \<^verbatim>\<open>start_measurement_threadsafe\<close> while the
  first session is active is not rejected: a second task is created for the same output
  path and the global \<^verbatim>\<open>measurement_task\<close> is rebound from the first task to the second.
\<close>

theorem second_start_not_rejected:
  "map_option (\<lambda>(res, w). (res, length (tasks w), measurement_task w))
     (start_measurement_threadsafe ConfigSaved demo_form demo_world) = Some (TaskCreated 0, 1, Some 0)
   \<and> length (tasks busy_world) = 1 \<and> measurement_task busy_world = Some 0
   \<and> map_option (\<lambda>(res, w). (res, length (tasks w), measurement_task w, map task_csv (tasks w)))
       (start_measurement_threadsafe ConfigSaved demo_form busy_world)
      = Some (TaskCreated 1, 2, Some 1, [''./results/run.csv'', ''./results/run.csv''])"
  by (simp add: busy_world_def start_defs Let_def demo_world_def decimal.simps)

text \<open>
  The start button does not hold a second start back either. Its disabling is only
  scheduled, so a second press that the Tk loop handles first starts a second session;
  and once the widgets are disabled, a ping that was begun before the start and answers
  during the session sets the button back to normal.
\<close>

lemma button_pressed_twice:
  "map_option (\<lambda>w. (length (tasks w), measurement_task w, measure_button w, tk_queue w))
     (Option.bind (press_measure_button ConfigSaved demo_form demo_world)
        (press_measure_button ConfigSaved demo_form))
   = Some (2, Some 1, Normal, [SetAllWidgetsState Disabled, SetAllWidgetsState Disabled])"
  by (simp add: press_measure_button_def start_defs Let_def demo_world_def decimal.simps)

lemma ping_enables_button_again:
  "measure_button (tk_update busy_world) = Disabled
   \<and> press_measure_button ConfigSaved demo_form (tk_update busy_world) = Some (tk_update busy_world)
   \<and> measure_button (ping_ip_async PingOk demo_form (tk_update busy_world)) = Normal
   \<and> map_option (\<lambda>w. (length (tasks w), measurement_task w))
       (press_measure_button ConfigSaved demo_form
          (ping_ip_async PingOk demo_form (tk_update busy_world)))
      = Some (2, Some 1)"
  by (simp add: press_measure_button_def ping_ip_async_def tk_update_def busy_world_def
        start_defs Let_def demo_world_def decimal.simps)

lemma path_exists_fun: "path_exists w = entry_exists (files w) (dirs w)"
  by (rule ext) (simp add: path_exists_def entry_exists_def)

lemma setup_TaskCreated:
  assumes "measure_power_async_setup cd f w = Some (TaskCreated i, w1)"
  shows "i = length (tasks w) \<and> measurement_task w1 = Some i
         \<and> (\<exists>t. tasks w1 = tasks w @ [t])"
  using assms
  by (auto simp: measure_power_async_setup_def Let_def save_config_def makedirs_def
           split: option.splits if_splits sum.splits config_disk.splits)

lemma setup_other_tasks:
  assumes "measure_power_async_setup cd f w = Some (TaskCreated i, w1)"
  shows "\<exists>w2. measure_power_async_setup cd f (w\<lparr>tasks := ts, measurement_task := m\<rparr>)
                 = Some (TaskCreated (length ts), w2)
              \<and> tasks w2 = ts @ [last (tasks w1)] \<and> measurement_task w2 = Some (length ts)"
  using assms
  by (auto simp: measure_power_async_setup_def Let_def save_config_def makedirs_def path_exists_fun
           split: option.splits if_splits sum.splits config_disk.splits)

text \<open>
  Claim C4, as amended. The code has no busy check and no \<open>SessionBusy\<close>: a start never
  looks at the tasks on the event loop or at the task handle. A start that creates a
  task appends it to the tasks and rebinds the handle to it, and the same start
  creates the same task whatever tasks are active and whatever the handle holds: the
  active tasks stay in the list as they were, the new one is added after them.
\<close>

theorem start_ignores_active_session:
  assumes started: "start_measurement_threadsafe cd f w = Some (TaskCreated i, w1)"
  shows "i = length (tasks w) \<and> measurement_task w1 = Some i
         \<and> tasks w1 = tasks w @ [last (tasks w1)]
         \<and> (\<forall>ts m. \<exists>w2. start_measurement_threadsafe cd f (w\<lparr>tasks := ts, measurement_task := m\<rparr>)
                            = Some (TaskCreated (length ts), w2)
                         \<and> tasks w2 = ts @ [last (tasks w1)]
                         \<and> measurement_task w2 = Some (length ts))"
proof -
  from started have s: "measure_power_async_setup cd f w = Some (TaskCreated i, w1)"
    by (simp add: start_measurement_threadsafe_def)
  from setup_TaskCreated[OF s] obtain t where
    a: "i = length (tasks w)" "measurement_task w1 = Some i" "tasks w1 = tasks w @ [t]" by blast
  then have b: "tasks w1 = tasks w @ [last (tasks w1)]" by simp
  have c: "\<exists>w2. start_measurement_threadsafe cd f (w\<lparr>tasks := ts, measurement_task := m\<rparr>)
                            = Some (TaskCreated (length ts), w2)
                         \<and> tasks w2 = ts @ [last (tasks w1)]
                         \<and> measurement_task w2 = Some (length ts)" for ts m
    using setup_other_tasks[OF s, where ts = ts and m = m]
    by (simp add: start_measurement_threadsafe_def)
  from a(1,2) b c show ?thesis by blast
qed

theorem start_ignores_active_session_witness:
  "\<exists>w1 w2. start_measurement_threadsafe ConfigSaved demo_form demo_world = Some (TaskCreated 0, w1)
        \<and> measurement_task w1 = Some 0
        \<and> start_measurement_threadsafe ConfigSaved demo_form
             (demo_world\<lparr>tasks := tasks w1, measurement_task := Some 0\<rparr>) = Some (TaskCreated 1, w2)
        \<and> tasks w2 = tasks w1 @ [last (tasks w1)] \<and> measurement_task w2 = Some 1"
proof -
  obtain w1 where started: "start_measurement_threadsafe ConfigSaved demo_form demo_world
                              = Some (TaskCreated 0, w1)"
    and one: "length (tasks w1) = 1"
    by (simp add: start_defs Let_def demo_world_def decimal.simps)
  from start_ignores_active_session[OF started]
  obtain w2 where "start_measurement_threadsafe ConfigSaved demo_form
             (demo_world\<lparr>tasks := tasks w1, measurement_task := Some 0\<rparr>)
               = Some (TaskCreated (length (tasks w1)), w2)"
     "tasks w2 = tasks w1 @ [last (tasks w1)]" "measurement_task w2 = Some (length (tasks w1))"
     "measurement_task w1 = Some 0"
    by blast
  with started one show ?thesis by auto
qed

end
